theory Spec2Isabelle
  imports Main "HOL-Library.AList"
begin

section \<open>Go values: objects seen through reflection, and the store of maps\<close>

text \<open>
  A \<^verbatim>\<open>map[string]string\<close> is a reference: two variables can hold the same map. The
  store maps an address to the contents of the map allocated there; the contents are an
  association list read with \<^const>\<open>map_of\<close> (the order of the list is the order in which
  \<^verbatim>\<open>range\<close> happens to visit the keys, which Go leaves unspecified).
\<close>

type_synonym addr = nat
type_synonym strmap = "(string \<times> string) list"
type_synonym heap = "addr \<Rightarrow> strmap"

text \<open>
  The dynamic value behind a \<^verbatim>\<open>runtime.Object\<close>, as package \<^verbatim>\<open>reflect\<close> sees it: a struct
  is the list of its fields (Go name, value of the \<^verbatim>\<open>json\<close> key of the tag, contents), a
  pointer is nil or owns its pointee, a field of type \<^verbatim>\<open>interface{}\<close> is nil or holds a
  value, a \<^verbatim>\<open>map[string]string\<close> is nil or a reference into the store; anything else is
  \<open>GOther\<close>. Fields promoted from embedded structs are not modelled: \<^verbatim>\<open>FieldByName\<close>
  looks at the direct fields.
\<close>

datatype gval =
    GStruct "gfield list"
  | GPtr "gval option"
  | GIface "gval option"
  | GMap "addr option"
  | GOther
and gfield = GField (fname: string) (ftag: string) (fval: gval)

datatype panic =
    InvalidValue      \<comment> \<open>a method called on the zero \<^verbatim>\<open>reflect.Value\<close> (nil pointer dereferenced)\<close>
  | NotAStruct        \<comment> \<open>\<^verbatim>\<open>FieldByName\<close> on a value whose kind is not Struct\<close>
  | UnexportedField   \<comment> \<open>\<^verbatim>\<open>Interface\<close> on a value obtained through an unexported field\<close>
  | BadTypeAssertion  \<comment> \<open>\<^verbatim>\<open>orig.(map[string]string)\<close> on another dynamic type\<close>
  | NilMapWrite       \<comment> \<open>assignment to an entry of a nil map\<close>
  | NotSettable       \<comment> \<open>\<^verbatim>\<open>Set\<close> on a value that is not addressable\<close>
  | NilUserInfo       \<comment> \<open>\<^verbatim>\<open>GetName\<close> called on a nil \<^verbatim>\<open>user.Info\<close>\<close>
  | MarshalPanic      \<comment> \<open>\<^verbatim>\<open>panic(err)\<close> after \<^verbatim>\<open>json.MarshalIndent\<close> failed\<close>

text \<open>
  A valid \<^verbatim>\<open>reflect.Value\<close>: the value it denotes, the read-only flag (set once an
  unexported field has been traversed), the addressable flag (set once a pointer has been
  dereferenced), and the field indices leading to it from the object.
\<close>

record rvalue =
  rval :: gval
  rro :: bool
  rcanaddr :: bool
  rpath :: "nat list"

text \<open>A Go name is exported when it starts with an upper-case letter (here: of ASCII).\<close>

definition exported :: "string \<Rightarrow> bool" where
  "exported n = (case n of [] \<Rightarrow> False
                 | c # _ \<Rightarrow> (65::nat) \<le> of_char c \<and> of_char c \<le> (90::nat))"

text \<open>\<^verbatim>\<open>reflect.Indirect(reflect.ValueOf(obj))\<close>; \<open>None\<close> is the zero Value.\<close>

fun indirect :: "gval \<Rightarrow> rvalue option" where
  "indirect (GPtr None) = None"
| "indirect (GPtr (Some x)) = Some \<lparr>rval = x, rro = False, rcanaddr = True, rpath = []\<rparr>"
| "indirect v = Some \<lparr>rval = v, rro = False, rcanaddr = False, rpath = []\<rparr>"

text \<open>\<^verbatim>\<open>FieldByName\<close> on the direct fields: the index of the first field of that name.\<close>

fun fieldByName :: "gfield list \<Rightarrow> string \<Rightarrow> nat option" where
  "fieldByName [] n = None"
| "fieldByName (f # fs) n =
     (if fname f = n then Some 0 else map_option Suc (fieldByName fs n))"

text \<open>\<^verbatim>\<open>strings.Split(s, ",")\<close>: the empty string splits into one empty piece.\<close>

fun splitComma :: "string \<Rightarrow> string list" where
  "splitComma [] = [[]]"
| "splitComma (c # cs) =
     (if c = CHR '','' then [] # splitComma cs
      else (case splitComma cs of [] \<Rightarrow> [[c]] | p # ps \<Rightarrow> (c # p) # ps))"

text \<open>The loop of \<^verbatim>\<open>getField\<close> over the fields of the type, in declaration order.\<close>

fun tagLoop :: "gfield list \<Rightarrow> gfield list \<Rightarrow> string \<Rightarrow> nat option" where
  "tagLoop allf [] field = None"
| "tagLoop allf (fld # rest) field =
     (if field \<in> set (splitComma (ftag fld)) then fieldByName allf (fname fld)
      else tagLoop allf rest field)"

definition fieldAt :: "rvalue \<Rightarrow> gfield list \<Rightarrow> nat \<Rightarrow> rvalue" where
  "fieldAt r fs i =
     \<lparr>rval = fval (fs ! i), rro = (rro r \<or> \<not> exported (fname (fs ! i))),
      rcanaddr = rcanaddr r, rpath = rpath r @ [i]\<rparr>"

text \<open>
  The search of \<^verbatim>\<open>getField\<close> in a struct: first \<^verbatim>\<open>FieldByName(field)\<close>, then the
  first field one of whose comma-separated tag pieces is \<open>field\<close>.
\<close>

definition findField :: "gfield list \<Rightarrow> string \<Rightarrow> nat option" where
  "findField fs field =
     (case fieldByName fs field of Some i \<Rightarrow> Some i | None \<Rightarrow> tagLoop fs fs field)"

text \<open>
  \<^verbatim>\<open>if obj.Kind() == reflect.Ptr { obj = reflect.Indirect(obj) }\<close>; \<open>None\<close> is the
  zero Value that dereferencing a nil pointer gives.
\<close>

definition derefPtr :: "rvalue \<Rightarrow> rvalue option" where
  "derefPtr r =
     (case rval r of
        GPtr None \<Rightarrow> None
      | GPtr (Some x) \<Rightarrow> Some (r\<lparr>rval := x, rcanaddr := True\<rparr>)
      | _ \<Rightarrow> Some r)"

text \<open>
  \<^verbatim>\<open>getField\<close>: \<open>Inl\<close> is a panic of package reflect, \<open>Inr None\<close> is
  \<^verbatim>\<open>(reflect.Zero(tpe), false)\<close>, \<open>Inr (Some v)\<close> is \<^verbatim>\<open>(v, true)\<close>.
\<close>

definition getField :: "rvalue option \<Rightarrow> string \<Rightarrow> panic + rvalue option" where
  "getField obj field =
     (case obj of
        None \<Rightarrow> Inl InvalidValue
      | Some r \<Rightarrow>
          (case derefPtr r of
             None \<Rightarrow> Inl InvalidValue
           | Some r' \<Rightarrow>
               (case rval r' of
                  GStruct fs \<Rightarrow> Inr (map_option (fieldAt r' fs) (findField fs field))
                | _ \<Rightarrow> Inl NotAStruct)))"

definition getAnnotationsField :: "rvalue option \<Rightarrow> panic + rvalue option" where
  "getAnnotationsField val =
     (case getField val ''metadata'' of
        Inl p \<Rightarrow> Inl p
      | Inr None \<Rightarrow> Inr None
      | Inr (Some metadataFld) \<Rightarrow> getField (Some metadataFld) ''annotations'')"

text \<open>
  Writing through a \<^verbatim>\<open>reflect.Value\<close>: the object with the value at the end of the path
  replaced. Pointers on the way are followed, as \<^verbatim>\<open>getField\<close> followed them.
\<close>

fun setAt :: "gval \<Rightarrow> nat list \<Rightarrow> gval \<Rightarrow> gval"
  and setFld :: "gfield list \<Rightarrow> nat \<Rightarrow> nat list \<Rightarrow> gval \<Rightarrow> gfield list" where
  "setAt x [] v = v"
| "setAt (GPtr (Some x)) (i # p) v = GPtr (Some (setAt x (i # p) v))"
| "setAt (GStruct fs) (i # p) v = GStruct (setFld fs i p v)"
| "setAt x (i # p) v = x"
| "setFld [] i p v = []"
| "setFld (GField n t x # fs) 0 p v = GField n t (setAt x p v) # fs"
| "setFld (f # fs) (Suc i) p v = f # setFld fs i p v"

text \<open>Reading \<^verbatim>\<open>m[k]\<close> from a map of strings: a missing key reads as the empty string.\<close>

definition goLookup :: "strmap \<Rightarrow> string \<Rightarrow> string" where
  "goLookup m k = (case map_of m k of None \<Rightarrow> [] | Some v \<Rightarrow> v)"

text \<open>
  The loop of \<^verbatim>\<open>applyAnnotations\<close> over the keys of \<open>origMap\<close>, on the contents of the
  map \<open>annotations\<close>.
\<close>

fun mergeLoop :: "string list \<Rightarrow> strmap \<Rightarrow> strmap \<Rightarrow> strmap" where
  "mergeLoop [] origMap annotations = annotations"
| "mergeLoop (k # ks) origMap annotations =
     mergeLoop ks origMap
       (if map_of annotations k = None
        then AList.update k (goLookup origMap k) annotations
        else annotations)"

text \<open>The contents of a map value: a nil map reads as a map without keys.\<close>

definition contents :: "heap \<Rightarrow> addr option \<Rightarrow> strmap" where
  "contents h a = (case a of None \<Rightarrow> [] | Some x \<Rightarrow> h x)"

text \<open>
  \<^verbatim>\<open>orig := annotationsFld.Interface(); if orig == nil { orig = map[string]string{} };
  origMap := orig.(map[string]string)\<close>: the contents of \<open>origMap\<close>, or \<open>None\<close> when the
  type assertion panics. Only an interface-typed field that is nil makes \<open>orig == nil\<close>
  true: a nil map in a map-typed field is a non-nil interface value.
\<close>

fun origMapOf :: "heap \<Rightarrow> gval \<Rightarrow> strmap option" where
  "origMapOf h (GIface None) = Some []"
| "origMapOf h (GIface (Some (GMap a))) = Some (contents h a)"
| "origMapOf h (GMap a) = Some (contents h a)"
| "origMapOf h v = None"

text \<open>
  The \<^verbatim>\<open>for k := range origMap\<close> loop on the caller's map: a nil map panics at the
  first assignment, an allocated map is updated in place at its address.
\<close>

definition mergeInto :: "strmap \<Rightarrow> addr option \<Rightarrow> heap \<Rightarrow> heap option" where
  "mergeInto origMap annotations h =
     (case annotations of
        None \<Rightarrow> if map fst origMap = [] then Some h else None
      | Some b \<Rightarrow> Some (h(b := mergeLoop (map fst origMap) origMap (h b))))"

text \<open>The value \<^verbatim>\<open>Set\<close> stores: the map itself, boxed when the field is an interface.\<close>

fun stored :: "gval \<Rightarrow> addr option \<Rightarrow> gval" where
  "stored (GIface x) annotations = GIface (Some (GMap annotations))"
| "stored v annotations = GMap annotations"

text \<open>
  \<^verbatim>\<open>applyAnnotations(obj, annotations)\<close> on the store \<open>h\<close>: the object and the store
  afterwards, or the panic. \<open>obj\<close> is the dynamic value of the (non-nil) interface,
  \<open>annotations\<close> is the caller's map: nil or an address.
\<close>

definition applyAnnotations :: "gval \<Rightarrow> addr option \<Rightarrow> heap \<Rightarrow> panic + (gval \<times> heap)" where
  "applyAnnotations obj annotations h =
     (case getAnnotationsField (indirect obj) of
        Inl p \<Rightarrow> Inl p
      | Inr None \<Rightarrow> Inr (obj, h)
      | Inr (Some annotationsFld) \<Rightarrow>
          if rro annotationsFld then Inl UnexportedField
          else
            (case origMapOf h (rval annotationsFld) of
               None \<Rightarrow> Inl BadTypeAssertion
             | Some origMap \<Rightarrow>
                 (case mergeInto origMap annotations h of
                    None \<Rightarrow> Inl NilMapWrite
                  | Some h' \<Rightarrow>
                      if \<not> rcanaddr annotationsFld then Inl NotSettable
                      else Inr (setAt obj (rpath annotationsFld)
                                  (stored (rval annotationsFld) annotations), h'))))"

text \<open>\<^verbatim>\<open>getAnnotations\<close>: the map in the object's annotations field, nil when there is none.\<close>

definition getAnnotations :: "gval \<Rightarrow> panic + addr option" where
  "getAnnotations obj =
     (case getAnnotationsField (indirect obj) of
        Inl p \<Rightarrow> Inl p
      | Inr None \<Rightarrow> Inr None
      | Inr (Some annotationsFld) \<Rightarrow>
          if rro annotationsFld then Inl UnexportedField
          else
            (case rval annotationsFld of
               GIface None \<Rightarrow> Inr None
             | GIface (Some (GMap a)) \<Rightarrow> Inr a
             | GMap a \<Rightarrow> Inr a
             | _ \<Rightarrow> Inl BadTypeAssertion))"

text \<open>
  The shape of \<^verbatim>\<open>api.Pod\<close> that the test \<^verbatim>\<open>TestApplyAnnotations\<close> passes by pointer:
  the field \<^verbatim>\<open>ObjectMeta\<close> tagged \<^verbatim>\<open>metadata,omitempty\<close>, holding the field
  \<^verbatim>\<open>Annotations\<close> tagged \<^verbatim>\<open>annotations,omitempty\<close>.
\<close>

definition podObject :: "addr option \<Rightarrow> gval" where
  "podObject a =
     GPtr (Some (GStruct
       [GField ''TypeMeta'' '',inline'' GOther,
        GField ''ObjectMeta'' ''metadata,omitempty''
          (GStruct [GField ''Name'' ''name,omitempty'' GOther,
                    GField ''UID'' ''uid,omitempty'' GOther,
                    GField ''Annotations'' ''annotations,omitempty'' (GMap a)]),
        GField ''Spec'' ''spec,omitempty'' GOther,
        GField ''Status'' ''status,omitempty'' GOther]))"

definition emptyHeap :: heap where
  "emptyHeap = (\<lambda>a. [])"

text \<open>An object without a metadata field.\<close>

definition bareObject :: gval where
  "bareObject = GPtr (Some (GStruct [GField ''Spec'' ''spec,omitempty'' GOther]))"

section \<open>JSON values, errors, HTTP exchanges\<close>

text \<open>
  What \<^verbatim>\<open>encoding/json\<close> decodes into an \<^verbatim>\<open>interface{}\<close>: \<open>JNull\<close> is the nil interface,
  an object is a \<^verbatim>\<open>map[string]interface{}\<close> (an association list read with \<^const>\<open>map_of\<close>),
  a number keeps its literal (the code never computes with one).
\<close>

datatype json =
    JNull
  | JBool bool
  | JNumber string
  | JString string
  | JArray "json list"
  | JObject "(string \<times> json) list"

text \<open>
  The values of Go's \<^verbatim>\<open>error\<close> that the code builds, one constructor for each place that
  builds one. \<open>Undefined\<close> is \<^verbatim>\<open>undefined{}\<close> (\<^verbatim>\<open>Undefined{}\<close> in the federation package);
  \<open>Forbidden e\<close> is \<^verbatim>\<open>admission.NewForbidden(a, e)\<close>.
\<close>

datatype gerror =
    Undefined
  | TransportError string    \<comment> \<open>the error of \<^verbatim>\<open>http.Get\<close>, \<^verbatim>\<open>http.Post\<close> or \<^verbatim>\<open>Client.Do\<close>\<close>
  | MarshalError string      \<comment> \<open>the error of \<^verbatim>\<open>json.Marshal\<close> or of an encoder\<close>
  | DecodeError              \<comment> \<open>the error of a JSON decoder, other than end of stream\<close>
  | EOF                      \<comment> \<open>\<^verbatim>\<open>io.EOF\<close>\<close>
  | BadResponse int          \<comment> \<open>\<^verbatim>\<open>bad response: %v\<close>\<close>
  | NotImplemented           \<comment> \<open>\<^verbatim>\<open>not implemented\<close>\<close>
  | ErrorResponse int string \<comment> \<open>\<^verbatim>\<open>code %v: %v\<close>\<close>
  | BadStatusCode int        \<comment> \<open>\<^verbatim>\<open>bad status code: %v\<close>\<close>
  | UnexpectedResult         \<comment> \<open>\<^verbatim>\<open>unexpected result of type %T\<close>\<close>
  | GetFailed int            \<comment> \<open>\<^verbatim>\<open>GET %v failed: %v\<close>\<close>
  | MalformedResponse        \<comment> \<open>\<^verbatim>\<open>malformed response: %v\<close>\<close>
  | Forbidden gerror

text \<open>
  The outcome of an HTTP call: the transport's error, or a response with its status code,
  its \<^verbatim>\<open>Content-Type\<close> header and its body. The body is left abstract; what a JSON decoder
  makes of it is a parameter of each client (\<open>None\<close>: the decoder returns an error).
\<close>

datatype 'b httpResult = ConnError string | Response int string 'b

fun hasPrefix :: "string \<Rightarrow> string \<Rightarrow> bool" where
  "hasPrefix s [] = True"
| "hasPrefix [] (c # cs) = False"
| "hasPrefix (x # xs) (c # cs) = (x = c \<and> hasPrefix xs cs)"

text \<open>\<^verbatim>\<open>strings.Contains(s, sub)\<close>.\<close>

fun containsStr :: "string \<Rightarrow> string \<Rightarrow> bool" where
  "containsStr [] sub = (sub = [])"
| "containsStr (x # xs) sub = (hasPrefix (x # xs) sub \<or> containsStr xs sub)"

section \<open>The policy clients\<close>

text \<open>
  \<^verbatim>\<open>v, ok := v.(map[string]interface{}); ok && v["IsUndefined"] != nil\<close>: a member whose
  value is JSON \<^verbatim>\<open>null\<close> reads as nil, like a missing one.
\<close>

definition isUndefinedBody :: "json \<Rightarrow> bool" where
  "isUndefinedBody v =
     (case v of
        JObject m \<Rightarrow> (case map_of m ''IsUndefined'' of None \<Rightarrow> False | Some x \<Rightarrow> x \<noteq> JNull)
      | _ \<Rightarrow> False)"

text \<open>
  \<^verbatim>\<open>httpClient.Query\<close> (the GET variant, with globals): \<open>dec\<close> is the decoder on the body,
  \<open>marshalErr\<close> the error of \<^verbatim>\<open>json.Marshal\<close> on a global if there is one, \<open>resp\<close> what
  \<^verbatim>\<open>http.Get\<close> returns. The body is decoded before the status is looked at.
\<close>

definition Query :: "('b \<Rightarrow> json option) \<Rightarrow> gerror option \<Rightarrow> 'b httpResult \<Rightarrow> gerror + json" where
  "Query dec marshalErr resp =
     (case marshalErr of
        Some e \<Rightarrow> Inl e
      | None \<Rightarrow>
          (case resp of
             ConnError m \<Rightarrow> Inl (TransportError m)
           | Response status ctype body \<Rightarrow>
               (case dec body of
                  None \<Rightarrow> Inl DecodeError
                | Some v \<Rightarrow>
                    if status = 200 then Inr v
                    else if status = 404 \<and> isUndefinedBody v then Inl Undefined
                    else Inl (BadResponse status))))"

text \<open>
  The part of \<^verbatim>\<open>Do\<close> after \<^verbatim>\<open>http.Post\<close>, the same text in both POST clients. \<open>decData\<close>
  decodes the body into \<^verbatim>\<open>dataResponseV1\<close> and gives its \<^verbatim>\<open>Result\<close>, \<open>decErr\<close> decodes it
  into \<^verbatim>\<open>errorResponseV1\<close> and gives code and message.
\<close>

definition handleResponse ::
  "('b \<Rightarrow> json option) \<Rightarrow> ('b \<Rightarrow> (int \<times> string) option) \<Rightarrow> 'b httpResult \<Rightarrow> gerror + json" where
  "handleResponse decData decErr resp =
     (case resp of
        ConnError m \<Rightarrow> Inl (TransportError m)
      | Response status ctype body \<Rightarrow>
          if status = 404 then Inl Undefined
          else if status = 200 then
            (case decData body of None \<Rightarrow> Inl DecodeError | Some result \<Rightarrow> Inr result)
          else if containsStr ctype ''application/json'' then
            (case decErr body of
               None \<Rightarrow> Inl DecodeError
             | Some (code, message) \<Rightarrow> Inl (ErrorResponse code message))
          else Inl (BadStatusCode status))"

text \<open>
  \<^verbatim>\<open>Request.Do\<close> of the federation package: \<open>encodeErr\<close> is the error of encoding the
  request body if there is one, \<open>post\<close> is \<^verbatim>\<open>http.Post\<close> as a function of URL and input.
  An input that is the nil interface is refused before anything is sent.
\<close>

definition Request_Do ::
  "('b \<Rightarrow> json option) \<Rightarrow> ('b \<Rightarrow> (int \<times> string) option) \<Rightarrow> gerror option \<Rightarrow>
   (string \<Rightarrow> json \<Rightarrow> 'b httpResult) \<Rightarrow> string \<Rightarrow> string \<Rightarrow> json \<Rightarrow> gerror + json" where
  "Request_Do decData decErr encodeErr post baseURL queryPath input =
     (if queryPath = [] then Inl NotImplemented
      else if input = JNull then Inl NotImplemented
      else case encodeErr of
             Some e \<Rightarrow> Inl e
           | None \<Rightarrow> handleResponse decData decErr (post (baseURL @ ''/data'' @ queryPath) input))"

text \<open>\<^verbatim>\<open>request.Do\<close> of package opa: no check before the call, the URL is base and path.\<close>

definition request_Do ::
  "('b \<Rightarrow> json option) \<Rightarrow> ('b \<Rightarrow> (int \<times> string) option) \<Rightarrow> gerror option \<Rightarrow>
   (string \<Rightarrow> json \<Rightarrow> 'b httpResult) \<Rightarrow> string \<Rightarrow> string \<Rightarrow> json \<Rightarrow> gerror + json" where
  "request_Do decData decErr encodeErr post baseURL path input =
     (case encodeErr of
        Some e \<Rightarrow> Inl e
      | None \<Rightarrow> handleResponse decData decErr (post (baseURL @ path) input))"

section \<open>Admission requests\<close>

text \<open>
  \<^verbatim>\<open>admission.Attributes\<close>, by its getters. Kinds, resources and operations are kept as
  strings; the user is known by name only, and \<open>None\<close> is a nil \<^verbatim>\<open>user.Info\<close>; an object
  is nil or the dynamic value of the \<^verbatim>\<open>runtime.Object\<close>.
\<close>

record attributes =
  GetKind :: string
  GetName :: string
  GetNamespace :: string
  GetResource :: string
  GetSubresource :: string
  GetObject :: "gval option"
  GetOldObject :: "gval option"
  GetOperation :: string
  GetUserInfo :: "string option"

text \<open>How a call ends: it returns, it panics, or it never returns.\<close>

datatype 'a run = Returns 'a | Panics panic | Blocks

subsection \<open>Admit with an admit and an override document\<close>

record request =
  reqKind :: string
  reqName :: string
  reqNamespace :: string
  reqResource :: string
  reqSubResource :: string
  reqObject :: "gval option"
  reqOldObject :: "gval option"
  reqOperation :: string
  reqUserInfo :: "string option"

definition mkRequest :: "attributes \<Rightarrow> request" where
  "mkRequest a =
     \<lparr>reqKind = GetKind a, reqName = GetName a, reqNamespace = GetNamespace a,
      reqResource = GetResource a, reqSubResource = GetSubresource a,
      reqObject = GetObject a, reqOldObject = GetOldObject a,
      reqOperation = GetOperation a, reqUserInfo = GetUserInfo a\<rparr>"

record controller =
  initialized :: bool
  admitDoc :: string
  overrideDoc :: string

text \<open>
  What \<^verbatim>\<open>Admit\<close> meets outside itself: whether \<^verbatim>\<open>c.start()\<close> returns (it waits until every
  reflector has replayed a first resync, which may never happen), whether
  \<^verbatim>\<open>json.MarshalIndent\<close> fails on the request, and the client behind \<^verbatim>\<open>c.factory.New()\<close>:
  the answer of the \<open>n\<close>-th call of \<^verbatim>\<open>Query\<close>, given the document and the request passed
  as the global \<^verbatim>\<open>request\<close>.
\<close>

record clientEnv =
  startReturns :: bool
  marshalIndentFails :: bool
  clientQuery :: "nat \<Rightarrow> string \<Rightarrow> request \<Rightarrow> gerror + json"

text \<open>
  \<^verbatim>\<open>controller.Admit\<close> with the two documents: the outcome, the controller afterwards and
  the calls of \<^verbatim>\<open>Query\<close> made, in order.
\<close>

definition Admit_rego ::
  "controller \<Rightarrow> clientEnv \<Rightarrow> attributes \<Rightarrow>
   (gerror option) run \<times> controller \<times> (string \<times> request) list" where
  "Admit_rego c env a =
     (if \<not> initialized c \<and> \<not> startReturns env then (Blocks, c, [])
      else
        let c' = c\<lparr>initialized := True\<rparr>; req = mkRequest a in
        if marshalIndentFails env then (Panics MarshalPanic, c', [])
        else
          (case clientQuery env 0 (admitDoc c') req of
             Inl err \<Rightarrow>
               if err = Undefined then (Returns (Some (Forbidden err)), c', [(admitDoc c', req)])
               else (Returns (Some err), c', [(admitDoc c', req)])
           | Inr v \<Rightarrow>
               (case clientQuery env 1 (overrideDoc c') req of
                  Inl err \<Rightarrow>
                    if err = Undefined
                    then (Returns None, c', [(admitDoc c', req), (overrideDoc c', req)])
                    else (Returns (Some err), c', [(admitDoc c', req), (overrideDoc c', req)])
                | Inr w \<Rightarrow> (Returns None, c', [(admitDoc c', req), (overrideDoc c', req)]))))"

subsection \<open>Admit with an annotations document\<close>












section \<open>The reflector and the loop that mirrors its events\<close>

text \<open>
  What travels on the channel \<^verbatim>\<open>Rx\<close>: a \<^verbatim>\<open>*resyncObjects\<close> with its items, a
  \<^verbatim>\<open>*syncObject\<close> with its type and its object (a \<^verbatim>\<open>map[string]interface{}\<close>), or an error.
\<close>

datatype event =
    ResyncObjects "json list"
  | SyncObject string "(string \<times> json) list"
  | ErrorEvent gerror

definition added :: string where "added = ''ADDED''"
definition modified :: string where "modified = ''MODIFIED''"
definition deleted :: string where "deleted = ''DELETED''"

text \<open>
  \<^verbatim>\<open>reflector.list\<close>, from what \<^verbatim>\<open>http.DefaultClient.Do\<close> returns; \<open>dec\<close> reads the body as
  JSON. Decoding into a \<^verbatim>\<open>map[string]interface{}\<close> accepts an object, leaves the map nil on
  \<^verbatim>\<open>null\<close> and fails on any other value.
\<close>

definition reflector_list ::
  "('b \<Rightarrow> json option) \<Rightarrow> 'b httpResult \<Rightarrow> gerror + (json list \<times> string)" where
  "reflector_list dec resp =
     (case resp of
        ConnError m \<Rightarrow> Inl (TransportError m)
      | Response status ctype body \<Rightarrow>
          if status \<noteq> 200 then Inl (GetFailed status)
          else
            (case dec body of
               None \<Rightarrow> Inl DecodeError
             | Some (JObject v) \<Rightarrow>
                 (case map_of v ''metadata'' of
                    Some (JObject m) \<Rightarrow>
                      (case map_of m ''resourceVersion'' of
                         Some (JString version) \<Rightarrow>
                           (case map_of v ''items'' of
                              Some (JArray items) \<Rightarrow> Inr (items, version)
                            | _ \<Rightarrow> Inl MalformedResponse)
                       | _ \<Rightarrow> Inl MalformedResponse)
                  | _ \<Rightarrow> Inl MalformedResponse)
             | Some JNull \<Rightarrow> Inl MalformedResponse
             | Some _ \<Rightarrow> Inl DecodeError))"

text \<open>
  How the loop of \<^verbatim>\<open>reflector.watch\<close> ends: a \<^verbatim>\<open>Decode\<close> returns an error (\<open>EOF\<close> when the
  stream is closed cleanly), or the stream stays open and silent for ever.
\<close>

datatype ending = EndsWith gerror | NeverEnds

text \<open>
  \<^verbatim>\<open>reflector.watch\<close>, from what \<^verbatim>\<open>http.DefaultClient.Do\<close> returns for the watch request:
  the \<^verbatim>\<open>syncObject\<close>s sent on \<^verbatim>\<open>Rx\<close>, and the error returned. \<open>decStream\<close> gives what the
  successive calls of \<^verbatim>\<open>Decode\<close> read from the body.
\<close>

definition reflector_watch ::
  "('s \<Rightarrow> (string \<times> (string \<times> json) list) list \<times> ending) \<Rightarrow> 's httpResult \<Rightarrow>
   (string \<times> (string \<times> json) list) list \<times> ending" where
  "reflector_watch decStream resp =
     (case resp of
        ConnError m \<Rightarrow> ([], EndsWith (TransportError m))
      | Response status ctype body \<Rightarrow>
          if status \<noteq> 200 then ([], EndsWith (GetFailed status)) else decStream body)"

text \<open>
  What the API server does during one turn of the loop of \<^verbatim>\<open>Start\<close>: its answer to the
  list request, and its answer to the watch request as a function of the
  \<^verbatim>\<open>resourceVersion\<close> the request carries.
\<close>

record ('b, 's) turn =
  listResponse :: "'b httpResult"
  watchResponse :: "string \<Rightarrow> 's httpResult"

text \<open>The \<^verbatim>\<open>syncObject\<close>s of a watch, as events on the channel.\<close>

definition syncEvents :: "(string \<times> (string \<times> json) list) list \<Rightarrow> event list" where
  "syncEvents syncs = map (\<lambda>(ty, obj). SyncObject ty obj) syncs"

text \<open>
  The goroutine of \<^verbatim>\<open>reflector.Start\<close>: the events sent on \<^verbatim>\<open>Rx\<close>, in order, while the
  server behaves as the turns say, one turn for each pass through the \<^verbatim>\<open>for\<close> loop. The
  loop has no exit: the list of turns is the part of the run looked at.
\<close>

fun Start ::
  "('b \<Rightarrow> json option) \<Rightarrow> ('s \<Rightarrow> (string \<times> (string \<times> json) list) list \<times> ending) \<Rightarrow>
   ('b, 's) turn list \<Rightarrow> event list" where
  "Start dec decStream [] = []"
| "Start dec decStream (t # ts) =
     (case reflector_list dec (listResponse t) of
        Inl err \<Rightarrow> ErrorEvent err # Start dec decStream ts
      | Inr (items, version) \<Rightarrow>
          ResyncObjects items #
          (case reflector_watch decStream (watchResponse t version) of
             (syncs, NeverEnds) \<Rightarrow> syncEvents syncs
           | (syncs, EndsWith err) \<Rightarrow>
               syncEvents syncs @
               (if err \<noteq> EOF then [ErrorEvent err] else []) @
               Start dec decStream ts))"

text \<open>\<^verbatim>\<open>controller.getUID\<close>: the empty string unless \<^verbatim>\<open>metadata.uid\<close> is there as a string.\<close>

definition getUID :: "json \<Rightarrow> string" where
  "getUID obj =
     (case obj of
        JObject ob \<Rightarrow>
          (case map_of ob ''metadata'' of
             Some (JObject m) \<Rightarrow>
               (case map_of m ''uid'' of Some (JString u) \<Rightarrow> u | _ \<Rightarrow> [])
           | _ \<Rightarrow> [])
      | _ \<Rightarrow> [])"

text \<open>
  The \<^verbatim>\<open>operation\<close> strings; \<open>NoOperation\<close> is the zero value, the empty string, that
  \<^verbatim>\<open>var op operation\<close> keeps when the type of a \<^verbatim>\<open>syncObject\<close> is none of the three.
\<close>

datatype operation = Add | Remove | Replace | NoOperation

text \<open>A call \<^verbatim>\<open>client.Patch(op, path, obj)\<close>; \<open>None\<close> is a nil \<open>obj\<close>.\<close>

type_synonym patchCall = "operation \<times> string \<times> json option"

fun operationName :: "operation \<Rightarrow> string" where
  "operationName Add = ''add''"
| "operationName Remove = ''remove''"
| "operationName Replace = ''replace''"
| "operationName NoOperation = []"

text \<open>
  The request \<^verbatim>\<open>httpClient.Patch\<close> sends for such a call: the URL, and the body, a batch of
  one patch that has a value only when \<open>obj\<close> is not nil.
\<close>

definition patchRequest :: "string \<Rightarrow> patchCall \<Rightarrow> string \<times> json" where
  "patchRequest baseURL call =
     (case call of
        (op, path, obj) \<Rightarrow>
          (baseURL @ ''/data'' @ path,
           JArray [JObject ([(''path'', JString ''/''), (''op'', JString (operationName op))] @
                            (case obj of None \<Rightarrow> [] | Some v \<Rightarrow> [(''value'', v)]))]))"

text \<open>The loop over the items of a resync: an item without UID is logged and skipped.\<close>

fun resyncItems :: "string \<Rightarrow> json list \<Rightarrow> patchCall list" where
  "resyncItems resourceType [] = []"
| "resyncItems resourceType (obj # items) =
     (let uid = getUID obj in
      if uid = [] then resyncItems resourceType items
      else (Add, ''/'' @ resourceType @ ''/'' @ uid, Some obj) # resyncItems resourceType items)"

text \<open>
  One pass through \<^verbatim>\<open>for msg := range reflector.Rx\<close> in \<^verbatim>\<open>controller.start\<close>: the calls of
  \<^verbatim>\<open>Patch\<close> made for the message and the local flag \<^verbatim>\<open>initialized\<close> (here \<open>started\<close>)
  afterwards. What a
  \<^verbatim>\<open>Patch\<close> returns is only logged, so it is no input here; an error on the channel
  matches no case of the type switch.
\<close>

definition handleMessage :: "string \<Rightarrow> bool \<Rightarrow> event \<Rightarrow> patchCall list \<times> bool" where
  "handleMessage resourceType started msg =
     (case msg of
        ResyncObjects items \<Rightarrow>
          ((if \<not> started then [(Add, ''/'' @ resourceType, Some (JObject []))] else []) @
           resyncItems resourceType items, True)
      | SyncObject ty object \<Rightarrow>
          (let uid = getUID (JObject object) in
           if uid = [] then ([], started)
           else
             let path = ''/'' @ resourceType @ ''/'' @ uid in
             if ty = added then ([(Add, path, Some (JObject object))], started)
             else if ty = modified then ([(Replace, path, Some (JObject object))], started)
             else if ty = deleted then ([(Remove, path, None)], started)
             else ([(NoOperation, path, None)], started))
      | ErrorEvent err \<Rightarrow> ([], started))"

text \<open>The loop itself, on the messages received so far.\<close>

fun syncLoop :: "string \<Rightarrow> bool \<Rightarrow> event list \<Rightarrow> patchCall list" where
  "syncLoop resourceType started [] = []"
| "syncLoop resourceType started (msg # msgs) =
     (case handleMessage resourceType started msg of
        (calls, started') \<Rightarrow> calls @ syncLoop resourceType started' msgs)"

text \<open>Objects and an API server used as concrete inputs.\<close>

definition podWithUID :: "string \<Rightarrow> (string \<times> json) list" where
  "podWithUID u =
     [(''kind'', JString ''Pod''),
      (''metadata'', JObject [(''name'', JString ''web''), (''uid'', JString u)]),
      (''spec'', JObject [])]"

definition podWithoutUID :: "(string \<times> json) list" where
  "podWithoutUID = [(''kind'', JString ''Pod''), (''metadata'', JObject [(''uid'', JNumber ''7'')])]"

definition listBody :: "json list \<Rightarrow> string \<Rightarrow> json" where
  "listBody items version =
     JObject [(''metadata'', JObject [(''resourceVersion'', JString version)]),
              (''items'', JArray items)]"

section \<open>Requests and environments used as concrete inputs\<close>

definition aliceCreatesPod :: attributes where
  "aliceCreatesPod =
     \<lparr>GetKind = ''v1/Pod'', GetName = ''testname'', GetNamespace = ''testns'',
      GetResource = ''pods'', GetSubresource = [], GetObject = Some (podObject (Some 0)),
      GetOldObject = None, GetOperation = ''CREATE'', GetUserInfo = Some ''alice''\<rparr>"




definition regoController :: controller where
  "regoController = \<lparr>initialized = False, admitDoc = ''/admit'', overrideDoc = ''/override''\<rparr>"

text \<open>
  A policy service that answers the first query with \<open>r0\<close> and the second with \<open>r1\<close>,
  behind the GET client; the body of a response is given already decoded.
\<close>

definition cannedClient ::
  "(json option) httpResult \<Rightarrow> (json option) httpResult \<Rightarrow> clientEnv" where
  "cannedClient r0 r1 =
     \<lparr>startReturns = True, marshalIndentFails = False,
      clientQuery = (\<lambda>n doc req. Query id None (if n = 0 then r0 else r1))\<rparr>"




section \<open>The annotation merge\<close>

lemma map_of_mergeLoop:
  "map_of (mergeLoop ks orig ann) k =
     (case map_of ann k of Some v \<Rightarrow> Some v
      | None \<Rightarrow> if k \<in> set ks then Some (goLookup orig k) else None)"
  by (induction ks orig ann rule: mergeLoop.induct)
     (auto simp: update_conv' split: option.splits)

lemma goLookup_mem: "k \<in> fst ` set orig \<Longrightarrow> Some (goLookup orig k) = map_of orig k"
  by (cases "map_of orig k") (auto simp: goLookup_def map_of_eq_None_iff)

lemma map_of_mergeLoop_keys:
  "map_of (mergeLoop (map fst orig) orig ann) = map_of orig ++ map_of ann"
proof (rule ext)
  fix k
  show "map_of (mergeLoop (map fst orig) orig ann) k = (map_of orig ++ map_of ann) k"
  proof (cases "map_of ann k")
    case (Some v)
    then show ?thesis by (simp add: map_of_mergeLoop map_add_def)
  next
    case None
    show ?thesis
    proof (cases "k \<in> fst ` set orig")
      case True
      then show ?thesis using None goLookup_mem[OF True]
        by (simp add: map_of_mergeLoop map_add_def)
    next
      case False
      then have "map_of orig k = None" by (simp add: map_of_eq_None_iff)
      then show ?thesis using None False
        by (simp add: map_of_mergeLoop map_add_def)
    qed
  qed
qed

section \<open>Reflection: a field found stays found after a write\<close>

lemma fieldByName_bound: "fieldByName fs n = Some i \<Longrightarrow> i < length fs"
  by (induction fs arbitrary: i) (auto split: if_splits)

lemma tagLoop_bound: "tagLoop allf rest n = Some i \<Longrightarrow> i < length allf"
  by (induction rest) (auto split: if_splits dest: fieldByName_bound)

lemma findField_bound: "findField fs n = Some i \<Longrightarrow> i < length fs"
  by (auto simp: findField_def split: option.splits dest: fieldByName_bound tagLoop_bound)

lemma setFld_length: "length (setFld fs i p v) = length fs"
proof (induction fs arbitrary: i)
  case Nil
  show ?case by simp
next
  case (Cons f fs)
  show ?case by (cases i; cases f) (simp_all add: Cons.IH)
qed

lemma setFld_names: "map fname (setFld fs i p v) = map fname fs"
proof (induction fs arbitrary: i)
  case Nil
  show ?case by simp
next
  case (Cons f fs)
  show ?case by (cases i; cases f) (simp_all add: Cons.IH)
qed

lemma setFld_tags: "map ftag (setFld fs i p v) = map ftag fs"
proof (induction fs arbitrary: i)
  case Nil
  show ?case by simp
next
  case (Cons f fs)
  show ?case by (cases i; cases f) (simp_all add: Cons.IH)
qed

lemma setFld_nth:
  "i < length fs \<Longrightarrow>
   setFld fs i p v ! i = GField (fname (fs ! i)) (ftag (fs ! i)) (setAt (fval (fs ! i)) p v)"
proof (induction fs arbitrary: i)
  case Nil
  then show ?case by simp
next
  case (Cons f fs)
  then show ?case by (cases i; cases f) simp_all
qed

lemma fieldByName_cong:
  "map fname fs' = map fname fs \<Longrightarrow> fieldByName fs' n = fieldByName fs n"
proof (induction fs arbitrary: fs')
  case Nil
  then show ?case by simp
next
  case (Cons f fs)
  from Cons.prems obtain g gs where fs': "fs' = g # gs" by (cases fs') auto
  with Cons.prems have "map fname gs = map fname fs" and "fname g = fname f" by auto
  with Cons.IH[of gs] fs' show ?case by simp
qed

lemma tagLoop_cong:
  "map fname allf' = map fname allf \<Longrightarrow> map fname rest' = map fname rest \<Longrightarrow>
   map ftag rest' = map ftag rest \<Longrightarrow> tagLoop allf' rest' n = tagLoop allf rest n"
proof (induction rest arbitrary: rest')
  case Nil
  then show ?case by simp
next
  case (Cons f fs)
  from Cons.prems obtain g gs where r': "rest' = g # gs" by (cases rest') auto
  with Cons.prems have "map fname gs = map fname fs" "map ftag gs = map ftag fs"
    "fname g = fname f" "ftag g = ftag f" by auto
  with Cons.IH[of gs] Cons.prems(1) r' fieldByName_cong[of allf' allf "fname f"]
  show ?case by simp
qed

lemma findField_setFld: "findField (setFld fs i p v) n = findField fs n"
  unfolding findField_def
  using fieldByName_cong[OF setFld_names, of fs i p v n]
        tagLoop_cong[OF setFld_names setFld_names setFld_tags, of fs i p v fs i p v n]
  by (simp split: option.splits)

lemma getField_disj:
  "getField (Some r) n = Inr (Some f) \<Longrightarrow>
   (\<exists>fs i. rval r = GStruct fs \<and> findField fs n = Some i \<and> i < length fs \<and>
       f = fieldAt r fs i) \<or>
   (\<exists>fs i. rval r = GPtr (Some (GStruct fs)) \<and> findField fs n = Some i \<and> i < length fs \<and>
       f = fieldAt (r\<lparr>rval := GStruct fs, rcanaddr := True\<rparr>) fs i)"
  by (auto simp: getField_def derefPtr_def findField_bound split: option.splits gval.splits)

lemma getField_cases:
  assumes "getField (Some r) n = Inr (Some f)"
  obtains (struct) fs i where "rval r = GStruct fs" "findField fs n = Some i" "i < length fs"
      "f = fieldAt r fs i"
  | (ptr) fs i where "rval r = GPtr (Some (GStruct fs))" "findField fs n = Some i"
      "i < length fs" "f = fieldAt (r\<lparr>rval := GStruct fs, rcanaddr := True\<rparr>) fs i"
  using getField_disj[OF assms] by blast

lemma getField_struct:
  "rval r = GStruct fs \<Longrightarrow>
   getField (Some r) n = Inr (map_option (fieldAt r fs) (findField fs n))"
  by (simp add: getField_def derefPtr_def)

lemma getField_ptr_struct:
  "rval r = GPtr (Some (GStruct fs)) \<Longrightarrow>
   getField (Some r) n =
     Inr (map_option (fieldAt (r\<lparr>rval := GStruct fs, rcanaddr := True\<rparr>) fs) (findField fs n))"
  by (simp add: getField_def derefPtr_def)


lemma getField_setAt:
  assumes g: "getField (Some r) n = Inr (Some f)" and pth: "rpath f = rpath r @ [i]"
  shows "getField (Some (r\<lparr>rval := setAt (rval r) (i # p) v\<rparr>)) n =
         Inr (Some (f\<lparr>rval := setAt (rval f) p v\<rparr>))"
  using g
proof (cases rule: getField_cases)
  case (struct fs k)
  with pth have ki: "k = i" by (simp add: fieldAt_def)
  let ?r = "r\<lparr>rval := setAt (rval r) (i # p) v\<rparr>"
  have "rval ?r = GStruct (setFld fs i p v)" using struct by simp
  from getField_struct[OF this, of n] struct ki
  show ?thesis
    by (simp add: findField_setFld fieldAt_def setFld_nth)
next
  case (ptr fs k)
  with pth have ki: "k = i" by (simp add: fieldAt_def)
  let ?r = "r\<lparr>rval := setAt (rval r) (i # p) v\<rparr>"
  have "rval ?r = GPtr (Some (GStruct (setFld fs i p v)))" using ptr by simp
  from getField_ptr_struct[OF this, of n] ptr ki
  show ?thesis
    by (simp add: findField_setFld fieldAt_def setFld_nth)
qed

lemma getField_path:
  "getField (Some r) n = Inr (Some f) \<Longrightarrow> \<exists>i. rpath f = rpath r @ [i]"
  by (erule getField_cases) (simp_all add: fieldAt_def)

lemma indirect_Some_setAt:
  "indirect obj = Some r \<Longrightarrow> getField (Some r) n = Inr (Some f) \<Longrightarrow>
   indirect (setAt obj (i # p) v) = Some (r\<lparr>rval := setAt (rval r) (i # p) v\<rparr>)"
  by (cases obj rule: indirect.cases) (auto elim!: getField_cases)

lemma indirect_path: "indirect obj = Some r \<Longrightarrow> rpath r = []"
  by (cases obj rule: indirect.cases) auto

lemma getAnnotationsField_setAt:
  assumes "getAnnotationsField (indirect obj) = Inr (Some fld)"
  shows "getAnnotationsField (indirect (setAt obj (rpath fld) v)) = Inr (Some (fld\<lparr>rval := v\<rparr>))"
proof -
  from assms obtain r where r: "indirect obj = Some r"
    by (cases "indirect obj") (auto simp: getAnnotationsField_def getField_def)
  from assms r obtain m where m: "getField (Some r) ''metadata'' = Inr (Some m)"
    and a: "getField (Some m) ''annotations'' = Inr (Some fld)"
    by (auto simp: getAnnotationsField_def split: sum.splits option.splits)
  from getField_path[OF m] indirect_path[OF r] obtain i where i: "rpath m = [i]" by auto
  from getField_path[OF a] i obtain j where j: "rpath fld = [i, j]" by auto
  have 1: "indirect (setAt obj [i, j] v) = Some (r\<lparr>rval := setAt (rval r) [i, j] v\<rparr>)"
    by (rule indirect_Some_setAt[OF r m])
  have 2: "getField (Some (r\<lparr>rval := setAt (rval r) [i, j] v\<rparr>)) ''metadata'' =
           Inr (Some (m\<lparr>rval := setAt (rval m) [j] v\<rparr>))"
    using getField_setAt[OF m, of i "[j]" v] i indirect_path[OF r] by simp
  have 3: "getField (Some (m\<lparr>rval := setAt (rval m) [j] v\<rparr>)) ''annotations'' =
           Inr (Some (fld\<lparr>rval := v\<rparr>))"
    using getField_setAt[OF a, of j "[]" v] i j by simp
  show ?thesis unfolding j getAnnotationsField_def 1 using 2 3 by simp
qed


section \<open>Claims on the annotation merge\<close>

lemma applyAnnotations_found:
  assumes "getAnnotationsField (indirect obj) = Inr (Some fld)"
    and "\<not> rro fld" and "rcanaddr fld" and "rval fld = GMap a"
  shows "applyAnnotations obj (Some b) h =
         Inr (setAt obj (rpath fld) (GMap (Some b)),
              h(b := mergeLoop (map fst (contents h a)) (contents h a) (h b)))"
  using assms by (simp add: applyAnnotations_def mergeInto_def)

lemma getAnnotations_setAt:
  assumes "getAnnotationsField (indirect obj) = Inr (Some fld)" and "\<not> rro fld"
  shows "getAnnotations (setAt obj (rpath fld) (GMap m)) = Inr m"
  using getAnnotationsField_setAt[OF assms(1), of "GMap m"] assms(2)
  by (simp add: getAnnotations_def)

text \<open>
  Claim C1. For an object whose annotations field is found, exported, settable and of map
  type, \<^verbatim>\<open>applyAnnotations\<close> returns, the object's annotations are then the incoming map,
  and that map holds exactly incoming \<open>\<union>\<close> (existing without the keys of incoming): as a
  map, the existing contents overridden by the incoming ones.
\<close>

theorem applyAnnotations_merge:
  assumes "getAnnotationsField (indirect obj) = Inr (Some fld)"
    and "\<not> rro fld" and "rcanaddr fld" and "rval fld = GMap a"
  shows "\<exists>obj' h'. applyAnnotations obj (Some b) h = Inr (obj', h') \<and>
           getAnnotations obj' = Inr (Some b) \<and>
           map_of (contents h' (Some b)) = map_of (contents h a) ++ map_of (contents h (Some b))"
  using applyAnnotations_found[OF assms, of b h] getAnnotations_setAt[OF assms(1,2), of "Some b"]
  by (simp add: contents_def map_of_mergeLoop_keys)

lemma pod_field:
  "getAnnotationsField (indirect (podObject a)) =
     Inr (Some \<lparr>rval = GMap a, rro = False, rcanaddr = True, rpath = [1, 2]\<rparr>)"
  by (simp add: podObject_def getAnnotationsField_def getField_def derefPtr_def findField_def
      fieldAt_def exported_def)

lemma pod_setAt: "setAt (podObject a) [Suc 0, Suc (Suc 0)] (GMap b) = podObject b"
  by (simp add: podObject_def)

text \<open>
  The two cases of \<^verbatim>\<open>TestApplyAnnotations\<close> that C1 names, on the pod: existing
  \<open>{foo: baz}\<close> with incoming \<open>{foo: bar}\<close> gives \<open>{foo: bar}\<close>; existing
  \<open>{baz: qux}\<close> with incoming \<open>{foo: bar}\<close> gives \<open>{baz: qux, foo: bar}\<close>.
\<close>

theorem applyAnnotations_merge_witness:
  "applyAnnotations (podObject (Some 0)) (Some 1)
       (emptyHeap(0 := [(''foo'', ''baz'')], 1 := [(''foo'', ''bar'')])) =
     Inr (podObject (Some 1),
          emptyHeap(0 := [(''foo'', ''baz'')], 1 := [(''foo'', ''bar'')])) \<and>
   applyAnnotations (podObject (Some 0)) (Some 1)
       (emptyHeap(0 := [(''baz'', ''qux'')], 1 := [(''foo'', ''bar'')])) =
     Inr (podObject (Some 1),
          emptyHeap(0 := [(''baz'', ''qux'')], 1 := [(''foo'', ''bar''), (''baz'', ''qux'')])) \<and>
   (\<exists>obj' h'. applyAnnotations (podObject (Some 0)) (Some 1)
        (emptyHeap(0 := [(''baz'', ''qux'')], 1 := [(''foo'', ''bar'')])) = Inr (obj', h') \<and>
      getAnnotations obj' = Inr (Some 1) \<and>
      map_of (contents h' (Some 1)) = [''baz'' \<mapsto> ''qux'', ''foo'' \<mapsto> ''bar''])"
proof (intro conjI)
  show "applyAnnotations (podObject (Some 0)) (Some 1)
       (emptyHeap(0 := [(''foo'', ''baz'')], 1 := [(''foo'', ''bar'')])) =
     Inr (podObject (Some 1),
          emptyHeap(0 := [(''foo'', ''baz'')], 1 := [(''foo'', ''bar'')]))"
    by (simp add: applyAnnotations_def pod_field mergeInto_def contents_def pod_setAt numeral_2_eq_2)
  show "applyAnnotations (podObject (Some 0)) (Some 1)
       (emptyHeap(0 := [(''baz'', ''qux'')], 1 := [(''foo'', ''bar'')])) =
     Inr (podObject (Some 1),
          emptyHeap(0 := [(''baz'', ''qux'')], 1 := [(''foo'', ''bar''), (''baz'', ''qux'')]))"
    by (simp add: applyAnnotations_def pod_field mergeInto_def contents_def pod_setAt goLookup_def numeral_2_eq_2)
  show "\<exists>obj' h'. applyAnnotations (podObject (Some 0)) (Some 1)
        (emptyHeap(0 := [(''baz'', ''qux'')], 1 := [(''foo'', ''bar'')])) = Inr (obj', h') \<and>
      getAnnotations obj' = Inr (Some 1) \<and>
      map_of (contents h' (Some 1)) = [''baz'' \<mapsto> ''qux'', ''foo'' \<mapsto> ''bar'']"
    using applyAnnotations_merge[OF pod_field[of "Some 0"], where b = 1
        and h = "emptyHeap(0 := [(''baz'', ''qux'')], 1 := [(''foo'', ''bar'')])"]
    by (simp add: contents_def)
qed

lemma bare_field: "getAnnotationsField (indirect bareObject) = Inr None"
  by (simp add: bareObject_def getAnnotationsField_def getField_def derefPtr_def findField_def)

text \<open>
  Claim C2 as stated (on a key present on both sides the existing value is kept) fails:
  the pod has \<open>foo: baz\<close>, the policy supplies \<open>foo: bar\<close>, and afterwards the pod's
  annotations are the policy's map, where \<open>foo\<close> is \<open>bar\<close>.
\<close>

theorem existing_precedence_counterexample:
  "applyAnnotations (podObject (Some 0)) (Some 1)
       (emptyHeap(0 := [(''foo'', ''baz'')], 1 := [(''foo'', ''bar'')])) =
     Inr (podObject (Some 1),
          emptyHeap(0 := [(''foo'', ''baz'')], 1 := [(''foo'', ''bar'')])) \<and>
   map_of (contents (emptyHeap(0 := [(''foo'', ''baz'')], 1 := [(''foo'', ''bar'')])) (Some 0))
     ''foo'' = Some ''baz'' \<and>
   map_of (contents (emptyHeap(0 := [(''foo'', ''baz'')], 1 := [(''foo'', ''bar'')])) (Some 1))
     ''foo'' = Some ''bar'' \<and>
   getAnnotations (podObject (Some 1)) = Inr (Some 1) \<and>
   ''bar'' \<noteq> ''baz''"
  by (simp add: applyAnnotations_def pod_field mergeInto_def contents_def pod_setAt
      getAnnotations_def numeral_2_eq_2)

text \<open>
  Claim C2, amended. On a key present on both sides the merged result keeps the
  policy-supplied value; every policy-supplied key is in the result with its value, and
  the keys the policy does not supply keep what the object had (or stay absent).
\<close>

theorem applyAnnotations_incoming_wins:
  assumes "getAnnotationsField (indirect obj) = Inr (Some fld)"
    and "\<not> rro fld" and "rcanaddr fld" and "rval fld = GMap a"
  shows "\<exists>obj' h'. applyAnnotations obj (Some b) h = Inr (obj', h') \<and>
           getAnnotations obj' = Inr (Some b) \<and>
           (\<forall>k v. map_of (h b) k = Some v \<longrightarrow> map_of (h' b) k = Some v) \<and>
           (\<forall>k. map_of (h b) k = None \<longrightarrow> map_of (h' b) k = map_of (contents h a) k)"
  using applyAnnotations_found[OF assms, of b h] getAnnotations_setAt[OF assms(1,2), of "Some b"]
  by (simp add: map_of_mergeLoop_keys map_add_def)

theorem applyAnnotations_incoming_wins_witness:
  "\<exists>obj' h'. applyAnnotations (podObject (Some 0)) (Some 1)
        (emptyHeap(0 := [(''foo'', ''baz''), (''baz'', ''qux'')], 1 := [(''foo'', ''bar'')])) =
        Inr (obj', h') \<and>
      getAnnotations obj' = Inr (Some 1) \<and>
      map_of (h' 1) ''foo'' = Some ''bar'' \<and> map_of (h' 1) ''baz'' = Some ''qux''"
proof -
  let ?h = "emptyHeap(0 := [(''foo'', ''baz''), (''baz'', ''qux'')], 1 := [(''foo'', ''bar'')])"
  from applyAnnotations_incoming_wins[OF pod_field[of "Some 0"], where b = 1 and h = ?h]
  obtain obj' h' where r: "applyAnnotations (podObject (Some 0)) (Some 1) ?h = Inr (obj', h')"
    and g: "getAnnotations obj' = Inr (Some 1)"
    and w: "\<forall>k v. map_of (?h 1) k = Some v \<longrightarrow> map_of (h' 1) k = Some v"
    and e: "\<forall>k. map_of (?h 1) k = None \<longrightarrow> map_of (h' 1) k = map_of (contents ?h (Some 0)) k"
    by auto
  from w have "map_of (h' 1) ''foo'' = Some ''bar''" by simp
  moreover from e have "map_of (h' 1) ''baz'' = Some ''qux''" by (simp add: contents_def)
  ultimately show ?thesis using r g by blast
qed

text \<open>
  Claim C10. When the field is found, the store changes at the address of the incoming
  map only, which receives the keys that only the object had; the object's annotations
  field then holds that same address, so the caller's map and the object's annotations are
  one map. When \<^verbatim>\<open>getAnnotationsField\<close> does not find the field, object and store are
  returned as they were.
\<close>

theorem applyAnnotations_in_place:
  "(getAnnotationsField (indirect obj) = Inr (Some fld) \<and> \<not> rro fld \<and> rcanaddr fld \<and>
      rval fld = GMap a \<longrightarrow>
      (\<exists>obj'. applyAnnotations obj (Some b) h =
                Inr (obj', h(b := mergeLoop (map fst (contents h a)) (contents h a) (h b))) \<and>
             getAnnotations obj' = Inr (Some b) \<and>
             (\<forall>k. map_of (h b) k = None \<longrightarrow>
                  map_of (mergeLoop (map fst (contents h a)) (contents h a) (h b)) k =
                  map_of (contents h a) k))) \<and>
   (getAnnotationsField (indirect obj) = Inr None \<longrightarrow>
      applyAnnotations obj annotations h = Inr (obj, h))"
proof (intro conjI impI)
  assume "getAnnotationsField (indirect obj) = Inr (Some fld) \<and> \<not> rro fld \<and> rcanaddr fld \<and>
      rval fld = GMap a"
  then have f: "getAnnotationsField (indirect obj) = Inr (Some fld)" and ro: "\<not> rro fld"
    and ad: "rcanaddr fld" and v: "rval fld = GMap a" by auto
  from applyAnnotations_found[OF f ro ad v, of b h] getAnnotations_setAt[OF f ro, of "Some b"]
  show "\<exists>obj'. applyAnnotations obj (Some b) h =
                Inr (obj', h(b := mergeLoop (map fst (contents h a)) (contents h a) (h b))) \<and>
             getAnnotations obj' = Inr (Some b) \<and>
             (\<forall>k. map_of (h b) k = None \<longrightarrow>
                  map_of (mergeLoop (map fst (contents h a)) (contents h a) (h b)) k =
                  map_of (contents h a) k)"
    by (simp add: map_of_mergeLoop_keys map_add_def)
next
  assume "getAnnotationsField (indirect obj) = Inr None"
  then show "applyAnnotations obj annotations h = Inr (obj, h)"
    by (simp add: applyAnnotations_def)
qed

theorem applyAnnotations_in_place_witness:
  "(\<exists>obj'. applyAnnotations (podObject (Some 0)) (Some 1)
        (emptyHeap(0 := [(''baz'', ''qux'')], 1 := [(''foo'', ''bar'')])) =
        Inr (obj', emptyHeap(0 := [(''baz'', ''qux'')],
                             1 := [(''foo'', ''bar''), (''baz'', ''qux'')])) \<and>
      getAnnotations obj' = Inr (Some 1)) \<and>
   applyAnnotations bareObject (Some 1)
        (emptyHeap(0 := [(''baz'', ''qux'')], 1 := [(''foo'', ''bar'')])) =
     Inr (bareObject, emptyHeap(0 := [(''baz'', ''qux'')], 1 := [(''foo'', ''bar'')]))"
  using applyAnnotations_in_place[where obj = "podObject (Some 0)" and a = "Some 0" and b = 1
        and fld = "\<lparr>rval = GMap (Some 0), rro = False, rcanaddr = True, rpath = [1, 2]\<rparr>"
        and h = "emptyHeap(0 := [(''baz'', ''qux'')], 1 := [(''foo'', ''bar'')])"]
    applyAnnotations_in_place[where obj = bareObject and annotations = "Some 1"
        and h = "emptyHeap(0 := [(''baz'', ''qux'')], 1 := [(''foo'', ''bar'')])"]
  by (simp add: pod_field bare_field contents_def goLookup_def) blast

section \<open>Claims on the policy clients\<close>

text \<open>
  Claim C5 as stated (in the GET variant a 404 whose body is an object containing an
  \<^verbatim>\<open>IsUndefined\<close> member is Undefined) fails when the member is JSON \<^verbatim>\<open>null\<close>: the lookup
  reads nil and the client answers with the generic error.
\<close>

theorem isUndefined_null_counterexample:
  "Query id None (Response 404 [] (Some (JObject [(''IsUndefined'', JNull)]))) =
     Inl (BadResponse 404) \<and>
   map_of [(''IsUndefined'', JNull)] ''IsUndefined'' = Some JNull \<and>
   BadResponse 404 \<noteq> Undefined"
  by (simp add: Query_def isUndefinedBody_def)

lemma Query_Undefined_iff:
  "Query dec None resp = Inl Undefined \<longleftrightarrow>
     (\<exists>ctype body m x. resp = Response 404 ctype body \<and> dec body = Some (JObject m) \<and>
        map_of m ''IsUndefined'' = Some x \<and> x \<noteq> JNull)"
  by (auto simp: Query_def isUndefinedBody_def
      split: httpResult.splits option.splits json.splits if_splits)

lemma Query_Inr_iff:
  "Query dec None resp = Inr v \<longleftrightarrow>
     (\<exists>ctype body. resp = Response 200 ctype body \<and> dec body = Some v)"
  by (auto simp: Query_def split: httpResult.splits option.splits if_splits)

lemma handleResponse_Undefined_iff:
  "handleResponse decData decErr resp = Inl Undefined \<longleftrightarrow>
     (\<exists>ctype body. resp = Response 404 ctype body)"
  by (auto simp: handleResponse_def split: httpResult.splits option.splits if_splits)

lemma handleResponse_Inr_iff:
  "handleResponse decData decErr resp = Inr v \<longleftrightarrow>
     (\<exists>ctype body. resp = Response 200 ctype body \<and> decData body = Some v)"
  by (auto simp: handleResponse_def split: httpResult.splits option.splits if_splits)

lemma sum_cases3:
  "(\<And>v. r \<noteq> Inr v) \<Longrightarrow> r \<noteq> Inl Undefined \<Longrightarrow> \<exists>e. r = Inl e \<and> e \<noteq> Undefined"
  by (cases r) auto

lemma Request_Do_checked:
  "queryPath \<noteq> [] \<Longrightarrow> input \<noteq> JNull \<Longrightarrow>
   Request_Do decData decErr None post baseURL queryPath input =
     handleResponse decData decErr (post (baseURL @ ''/data'' @ queryPath) input)"
  by (simp add: Request_Do_def)

lemma request_Do_sent:
  "request_Do decData decErr None post baseURL path input =
     handleResponse decData decErr (post (baseURL @ path) input)"
  by (simp add: request_Do_def)

text \<open>
  Claim C5, amended. GET client: success with the decoded value exactly on status 200 with
  a decodable body; Undefined exactly on status 404 with a body that decodes to an object
  whose \<^verbatim>\<open>IsUndefined\<close> member is present and not null; anything else is an error other
  than Undefined. POST clients (once the request is sent): success exactly on status 200
  with a decodable body, Undefined exactly on status 404, anything else an error other
  than Undefined.
\<close>

theorem policy_client_classification:
  "(Query dec None resp = Inr v \<longleftrightarrow>
      (\<exists>ctype body. resp = Response 200 ctype body \<and> dec body = Some v)) \<and>
   (Query dec None resp = Inl Undefined \<longleftrightarrow>
      (\<exists>ctype body m x. resp = Response 404 ctype body \<and> dec body = Some (JObject m) \<and>
         map_of m ''IsUndefined'' = Some x \<and> x \<noteq> JNull)) \<and>
   ((\<forall>ctype body. resp = Response 200 ctype body \<longrightarrow> dec body = None) \<and>
    (\<forall>ctype body m x. resp = Response 404 ctype body \<and> dec body = Some (JObject m) \<and>
         map_of m ''IsUndefined'' = Some x \<longrightarrow> x = JNull) \<longrightarrow>
      (\<exists>e. Query dec None resp = Inl e \<and> e \<noteq> Undefined)) \<and>
   (request_Do decData decErr None post baseURL path input = Inr w \<longleftrightarrow>
      (\<exists>ctype body. post (baseURL @ path) input = Response 200 ctype body \<and>
         decData body = Some w)) \<and>
   (request_Do decData decErr None post baseURL path input = Inl Undefined \<longleftrightarrow>
      (\<exists>ctype body. post (baseURL @ path) input = Response 404 ctype body)) \<and>
   ((\<forall>ctype body. post (baseURL @ path) input = Response 200 ctype body \<longrightarrow>
        decData body = None) \<and>
    (\<forall>ctype body. post (baseURL @ path) input \<noteq> Response 404 ctype body) \<longrightarrow>
      (\<exists>e. request_Do decData decErr None post baseURL path input = Inl e \<and> e \<noteq> Undefined)) \<and>
   (queryPath \<noteq> [] \<and> input' \<noteq> JNull \<longrightarrow>
      (Request_Do decData decErr None post baseURL queryPath input' = Inr w \<longleftrightarrow>
         (\<exists>ctype body. post (baseURL @ ''/data'' @ queryPath) input' = Response 200 ctype body \<and>
            decData body = Some w)) \<and>
      (Request_Do decData decErr None post baseURL queryPath input' = Inl Undefined \<longleftrightarrow>
         (\<exists>ctype body. post (baseURL @ ''/data'' @ queryPath) input' = Response 404 ctype body)) \<and>
      ((\<forall>ctype body. post (baseURL @ ''/data'' @ queryPath) input' = Response 200 ctype body \<longrightarrow>
           decData body = None) \<and>
       (\<forall>ctype body. post (baseURL @ ''/data'' @ queryPath) input' \<noteq> Response 404 ctype body) \<longrightarrow>
         (\<exists>e. Request_Do decData decErr None post baseURL queryPath input' = Inl e \<and>
              e \<noteq> Undefined)))"
proof (intro conjI impI)
  show "Query dec None resp = Inr v \<longleftrightarrow>
      (\<exists>ctype body. resp = Response 200 ctype body \<and> dec body = Some v)"
    by (rule Query_Inr_iff)
  show "Query dec None resp = Inl Undefined \<longleftrightarrow>
      (\<exists>ctype body m x. resp = Response 404 ctype body \<and> dec body = Some (JObject m) \<and>
         map_of m ''IsUndefined'' = Some x \<and> x \<noteq> JNull)"
    by (rule Query_Undefined_iff)
  show "request_Do decData decErr None post baseURL path input = Inr w \<longleftrightarrow>
      (\<exists>ctype body. post (baseURL @ path) input = Response 200 ctype body \<and>
         decData body = Some w)"
    by (simp add: request_Do_sent handleResponse_Inr_iff)
  show "request_Do decData decErr None post baseURL path input = Inl Undefined \<longleftrightarrow>
      (\<exists>ctype body. post (baseURL @ path) input = Response 404 ctype body)"
    by (simp add: request_Do_sent handleResponse_Undefined_iff)
next
  assume "(\<forall>ctype body. resp = Response 200 ctype body \<longrightarrow> dec body = None) \<and>
    (\<forall>ctype body m x. resp = Response 404 ctype body \<and> dec body = Some (JObject m) \<and>
         map_of m ''IsUndefined'' = Some x \<longrightarrow> x = JNull)"
  then have "\<And>v. Query dec None resp \<noteq> Inr v" and "Query dec None resp \<noteq> Inl Undefined"
    unfolding Query_Inr_iff Query_Undefined_iff by auto
  then show "\<exists>e. Query dec None resp = Inl e \<and> e \<noteq> Undefined" by (rule sum_cases3)
next
  assume "(\<forall>ctype body. post (baseURL @ path) input = Response 200 ctype body \<longrightarrow>
        decData body = None) \<and>
    (\<forall>ctype body. post (baseURL @ path) input \<noteq> Response 404 ctype body)"
  then have "\<And>v. request_Do decData decErr None post baseURL path input \<noteq> Inr v"
    and "request_Do decData decErr None post baseURL path input \<noteq> Inl Undefined"
    unfolding request_Do_sent handleResponse_Inr_iff handleResponse_Undefined_iff by auto
  then show "\<exists>e. request_Do decData decErr None post baseURL path input = Inl e \<and> e \<noteq> Undefined"
    by (rule sum_cases3)
next
  assume a: "queryPath \<noteq> [] \<and> input' \<noteq> JNull"
  then have d: "Request_Do decData decErr None post baseURL queryPath input' =
     handleResponse decData decErr (post (baseURL @ ''/data'' @ queryPath) input')"
    by (simp add: Request_Do_checked)
  show "Request_Do decData decErr None post baseURL queryPath input' = Inr w \<longleftrightarrow>
         (\<exists>ctype body. post (baseURL @ ''/data'' @ queryPath) input' = Response 200 ctype body \<and>
            decData body = Some w)"
    unfolding d by (rule handleResponse_Inr_iff)
  show "Request_Do decData decErr None post baseURL queryPath input' = Inl Undefined \<longleftrightarrow>
         (\<exists>ctype body. post (baseURL @ ''/data'' @ queryPath) input' = Response 404 ctype body)"
    unfolding d by (rule handleResponse_Undefined_iff)
  assume "(\<forall>ctype body. post (baseURL @ ''/data'' @ queryPath) input' = Response 200 ctype body \<longrightarrow>
           decData body = None) \<and>
       (\<forall>ctype body. post (baseURL @ ''/data'' @ queryPath) input' \<noteq> Response 404 ctype body)"
  then have "\<And>v. Request_Do decData decErr None post baseURL queryPath input' \<noteq> Inr v"
    and "Request_Do decData decErr None post baseURL queryPath input' \<noteq> Inl Undefined"
    unfolding d handleResponse_Inr_iff handleResponse_Undefined_iff by auto
  then show "\<exists>e. Request_Do decData decErr None post baseURL queryPath input' = Inl e \<and>
              e \<noteq> Undefined"
    by (rule sum_cases3)
qed


theorem policy_client_classification_witness:
  "Query id None (Response 200 [] (Some (JString ''allow''))) = Inr (JString ''allow'') \<and>
   Query id None (Response 404 [] (Some (JObject [(''IsUndefined'', JBool True)]))) =
     Inl Undefined \<and>
   (\<exists>e. Query id None (Response 404 [] (Some (JObject [(''IsUndefined'', JNull)]))) = Inl e \<and>
        e \<noteq> Undefined) \<and>
   (\<exists>e. Query id None (Response 200 [] None) = Inl e \<and> e \<noteq> Undefined) \<and>
   request_Do id (\<lambda>b. None) None (\<lambda>u i. Response 404 [] None) ''http://opa'' ''/doc''
     (JString ''in'') = Inl Undefined \<and>
   (\<exists>e. request_Do id (\<lambda>b. None) None (\<lambda>u i. ConnError ''refused'') ''http://opa'' ''/doc''
        (JString ''in'') = Inl e \<and> e \<noteq> Undefined) \<and>
   Request_Do id (\<lambda>b. None) None (\<lambda>u i. Response 200 [] (Some (JObject []))) ''http://opa''
     ''/doc'' (JString ''in'') = Inr (JObject []) \<and>
   Request_Do id (\<lambda>b. None) None (\<lambda>u i. Response 404 [] (Some (JObject []))) ''http://opa''
     ''/doc'' (JString ''in'') = Inl Undefined \<and>
   (\<exists>e. Request_Do id (\<lambda>b. None) None (\<lambda>u i. Response 500 [] None) ''http://opa''
        ''/doc'' (JString ''in'') = Inl e \<and> e \<noteq> Undefined)"
proof -
  note t = policy_client_classification[where dec = id and decData = id
      and decErr = "\<lambda>b. None" and baseURL = "''http://opa''" and path = "''/doc''"
      and queryPath = "''/doc''" and input = "JString ''in''" and input' = "JString ''in''"]
  have 1: "Query id None (Response 200 [] (Some (JString ''allow''))) = Inr (JString ''allow'')"
    using t[where resp = "Response 200 [] (Some (JString ''allow''))" and v = "JString ''allow''"
        and w = JNull and post = "\<lambda>u i. Response 404 [] None"]
    by simp
  have 2: "Query id None (Response 404 [] (Some (JObject [(''IsUndefined'', JBool True)]))) =
     Inl Undefined"
    using t[where resp = "Response 404 [] (Some (JObject [(''IsUndefined'', JBool True)]))"
        and v = JNull and w = JNull and post = "\<lambda>u i. Response 404 [] None"]
    by simp
  have 3: "\<exists>e. Query id None (Response 404 [] (Some (JObject [(''IsUndefined'', JNull)]))) = Inl e \<and>
        e \<noteq> Undefined"
    using t[where resp = "Response 404 [] (Some (JObject [(''IsUndefined'', JNull)]))"
        and v = JNull and w = JNull and post = "\<lambda>u i. Response 404 [] None"]
    by simp
  have 4: "\<exists>e. Query id None (Response 200 [] None) = Inl e \<and> e \<noteq> Undefined"
    using t[where resp = "Response 200 [] None"
        and v = JNull and w = JNull and post = "\<lambda>u i. Response 404 [] None"]
    by simp
  have 5: "request_Do id (\<lambda>b. None) None (\<lambda>u i. Response 404 [] None) ''http://opa'' ''/doc''
     (JString ''in'') = Inl Undefined"
    using t[where resp = "Response 200 [] None"
        and v = JNull and w = JNull and post = "\<lambda>u i. Response 404 [] None"]
    by simp
  have 6: "\<exists>e. request_Do id (\<lambda>b. None) None (\<lambda>u i. ConnError ''refused'') ''http://opa'' ''/doc''
        (JString ''in'') = Inl e \<and> e \<noteq> Undefined"
    using t[where resp = "Response 200 [] None"
        and v = JNull and w = JNull and post = "\<lambda>u i. ConnError ''refused''"]
    by simp
  have 7: "Request_Do id (\<lambda>b. None) None (\<lambda>u i. Response 200 [] (Some (JObject []))) ''http://opa''
     ''/doc'' (JString ''in'') = Inr (JObject [])"
    using t[where resp = "Response 200 [] None"
        and v = JNull and w = "JObject []" and post = "\<lambda>u i. Response 200 [] (Some (JObject []))"]
    by simp
  have 8: "Request_Do id (\<lambda>b. None) None (\<lambda>u i. Response 404 [] (Some (JObject []))) ''http://opa''
     ''/doc'' (JString ''in'') = Inl Undefined"
    using t[where resp = "Response 200 [] None"
        and v = JNull and w = JNull and post = "\<lambda>u i. Response 404 [] (Some (JObject []))"]
    by simp
  have 9: "\<exists>e. Request_Do id (\<lambda>b. None) None (\<lambda>u i. Response 500 [] None) ''http://opa''
        ''/doc'' (JString ''in'') = Inl e \<and> e \<noteq> Undefined"
    using t[where resp = "Response 200 [] None"
        and v = JNull and w = JNull and post = "\<lambda>u i. Response 500 [] None"]
    by simp
  from 1 2 3 4 5 6 7 8 9 show ?thesis by blast
qed


section \<open>Claims on admission\<close>

text \<open>
  Claim C4. When \<^verbatim>\<open>start\<close> returns (or the controller is initialised) and the request can
  be marshalled for the log: an undefined admit document gives a Forbidden error and an
  error of the admit query is returned as it is, in both cases after the one query; a
  defined admit document is followed by the override query with the same request, where
  undefined gives nil, an error is returned as it is, and any defined result gives nil.
\<close>

theorem Admit_rego_protocol:
  assumes "initialized c \<or> startReturns env" and "\<not> marshalIndentFails env"
  shows "(clientQuery env 0 (admitDoc c) (mkRequest a) = Inl Undefined \<longrightarrow>
            fst (Admit_rego c env a) = Returns (Some (Forbidden Undefined)) \<and>
            snd (snd (Admit_rego c env a)) = [(admitDoc c, mkRequest a)]) \<and>
         (\<forall>e. clientQuery env 0 (admitDoc c) (mkRequest a) = Inl e \<and> e \<noteq> Undefined \<longrightarrow>
            fst (Admit_rego c env a) = Returns (Some e) \<and>
            snd (snd (Admit_rego c env a)) = [(admitDoc c, mkRequest a)]) \<and>
         (\<forall>v. clientQuery env 0 (admitDoc c) (mkRequest a) = Inr v \<longrightarrow>
            snd (snd (Admit_rego c env a)) =
              [(admitDoc c, mkRequest a), (overrideDoc c, mkRequest a)] \<and>
            (clientQuery env 1 (overrideDoc c) (mkRequest a) = Inl Undefined \<longrightarrow>
               fst (Admit_rego c env a) = Returns None) \<and>
            (\<forall>e. clientQuery env 1 (overrideDoc c) (mkRequest a) = Inl e \<and> e \<noteq> Undefined \<longrightarrow>
               fst (Admit_rego c env a) = Returns (Some e)) \<and>
            (\<forall>w. clientQuery env 1 (overrideDoc c) (mkRequest a) = Inr w \<longrightarrow>
               fst (Admit_rego c env a) = Returns None))"
  using assms by (auto simp: Admit_rego_def Let_def split: sum.splits)

theorem Admit_rego_protocol_witness:
  "fst (Admit_rego regoController
          (cannedClient (Response 404 [] (Some (JObject [(''IsUndefined'', JBool True)])))
             (Response 200 [] (Some JNull))) aliceCreatesPod) =
     Returns (Some (Forbidden Undefined)) \<and>
   snd (snd (Admit_rego regoController
          (cannedClient (Response 404 [] (Some (JObject [(''IsUndefined'', JBool True)])))
             (Response 200 [] (Some JNull))) aliceCreatesPod)) =
     [(''/admit'', mkRequest aliceCreatesPod)] \<and>
   fst (Admit_rego regoController
          (cannedClient (ConnError ''refused'') (Response 200 [] (Some JNull)))
          aliceCreatesPod) =
     Returns (Some (TransportError ''refused'')) \<and>
   snd (snd (Admit_rego regoController
          (cannedClient (ConnError ''refused'') (Response 200 [] (Some JNull)))
          aliceCreatesPod)) =
     [(''/admit'', mkRequest aliceCreatesPod)] \<and>
   fst (Admit_rego regoController
          (cannedClient (Response 200 [] (Some (JBool True)))
             (Response 404 [] (Some (JObject [(''IsUndefined'', JBool True)]))))
          aliceCreatesPod) = Returns None \<and>
   snd (snd (Admit_rego regoController
          (cannedClient (Response 200 [] (Some (JBool True)))
             (Response 404 [] (Some (JObject [(''IsUndefined'', JBool True)]))))
          aliceCreatesPod)) =
     [(''/admit'', mkRequest aliceCreatesPod), (''/override'', mkRequest aliceCreatesPod)] \<and>
   fst (Admit_rego regoController
          (cannedClient (Response 200 [] (Some (JBool True))) (Response 500 [] (Some JNull)))
          aliceCreatesPod) = Returns (Some (BadResponse 500)) \<and>
   fst (Admit_rego regoController
          (cannedClient (Response 200 [] (Some (JBool True)))
             (Response 200 [] (Some (JBool False))))
          aliceCreatesPod) = Returns None"
proof -
  let ?undef = "Response 404 [] (Some (JObject [(''IsUndefined'', JBool True)]))"
  let ?ok = "Response 200 [] (Some (JBool True))"
  have q: "Query id None ?undef = Inl Undefined" "Query id None ?ok = Inr (JBool True)"
    "Query id None (ConnError ''refused'') = Inl (TransportError ''refused'')"
    "Query id None (Response 500 [] (Some JNull)) = Inl (BadResponse 500)"
    "Query id None (Response 200 [] (Some (JBool False))) = Inr (JBool False)"
    by (simp_all add: Query_def isUndefinedBody_def)
  note p = Admit_rego_protocol[where c = regoController and a = aliceCreatesPod]
  show ?thesis
    using p[where env = "cannedClient ?undef (Response 200 [] (Some JNull))"]
      p[where env = "cannedClient (ConnError ''refused'') (Response 200 [] (Some JNull))"]
      p[where env = "cannedClient ?ok ?undef"]
      p[where env = "cannedClient ?ok (Response 500 [] (Some JNull))"]
      p[where env = "cannedClient ?ok (Response 200 [] (Some (JBool False)))"]
    by (simp add: cannedClient_def regoController_def q)
qed
















section \<open>Claims on the reflector and the mirror\<close>

lemma resyncItems_filter:
  "resyncItems rt items =
     map (\<lambda>obj. (Add, ''/'' @ rt @ ''/'' @ getUID obj, Some obj))
       (filter (\<lambda>obj. getUID obj \<noteq> []) items)"
  by (induction items) (simp_all add: Let_def)

lemma getUID_string:
  "map_of ob ''metadata'' = Some (JObject m) \<Longrightarrow> map_of m ''uid'' = Some (JString u) \<Longrightarrow>
   getUID (JObject ob) = u"
  by (simp add: getUID_def)

text \<open>
  Claim C7. The UID is the string at \<^verbatim>\<open>metadata.uid\<close>, whatever else the object holds. For
  an object with a UID, a sync message makes one call of \<^verbatim>\<open>Patch\<close> on the path
  \<open>/resourceType/uid\<close>: add with the object for ADDED, replace with the object for MODIFIED,
  remove with nil for DELETED, and the request for a remove carries no value. A sync message
  whose object has no UID makes no call. A resync makes an add with the object for every
  item that has a UID, in order, after the creation of the collection when it is the first
  resync; the items without UID are left out and the later ones still handled. After any
  message the loop goes on with the next one.
\<close>

theorem mirror_sync_patches:
  "(map_of ob ''metadata'' = Some (JObject m) \<and> map_of m ''uid'' = Some (JString u) \<longrightarrow>
      getUID (JObject ob) = u) \<and>
   (getUID (JObject ob) \<noteq> [] \<longrightarrow>
      handleMessage rt started (SyncObject added ob) =
        ([(Add, ''/'' @ rt @ ''/'' @ getUID (JObject ob), Some (JObject ob))], started) \<and>
      handleMessage rt started (SyncObject modified ob) =
        ([(Replace, ''/'' @ rt @ ''/'' @ getUID (JObject ob), Some (JObject ob))], started) \<and>
      handleMessage rt started (SyncObject deleted ob) =
        ([(Remove, ''/'' @ rt @ ''/'' @ getUID (JObject ob), None)], started) \<and>
      patchRequest base (Remove, ''/'' @ rt @ ''/'' @ getUID (JObject ob), None) =
        (base @ ''/data/'' @ rt @ ''/'' @ getUID (JObject ob),
         JArray [JObject [(''path'', JString ''/''), (''op'', JString ''remove'')]])) \<and>
   (getUID (JObject ob) = [] \<longrightarrow> handleMessage rt started (SyncObject ty ob) = ([], started)) \<and>
   handleMessage rt started (ResyncObjects items) =
     ((if started then [] else [(Add, ''/'' @ rt, Some (JObject []))]) @
      map (\<lambda>obj. (Add, ''/'' @ rt @ ''/'' @ getUID obj, Some obj))
        (filter (\<lambda>obj. getUID obj \<noteq> []) items), True) \<and>
   syncLoop rt started (msg # msgs) =
     fst (handleMessage rt started msg) @
     syncLoop rt (snd (handleMessage rt started msg)) msgs"
proof (intro conjI impI)
  assume "map_of ob ''metadata'' = Some (JObject m) \<and> map_of m ''uid'' = Some (JString u)"
  then show "getUID (JObject ob) = u" by (simp add: getUID_string)
next
  assume u: "getUID (JObject ob) \<noteq> []"
  then show "handleMessage rt started (SyncObject added ob) =
        ([(Add, ''/'' @ rt @ ''/'' @ getUID (JObject ob), Some (JObject ob))], started)"
    by (simp add: handleMessage_def Let_def)
  from u show "handleMessage rt started (SyncObject modified ob) =
        ([(Replace, ''/'' @ rt @ ''/'' @ getUID (JObject ob), Some (JObject ob))], started)"
    by (simp add: handleMessage_def Let_def added_def modified_def)
  from u show "handleMessage rt started (SyncObject deleted ob) =
        ([(Remove, ''/'' @ rt @ ''/'' @ getUID (JObject ob), None)], started)"
    by (simp add: handleMessage_def Let_def added_def modified_def deleted_def)
  show "patchRequest base (Remove, ''/'' @ rt @ ''/'' @ getUID (JObject ob), None) =
        (base @ ''/data/'' @ rt @ ''/'' @ getUID (JObject ob),
         JArray [JObject [(''path'', JString ''/''), (''op'', JString ''remove'')]])"
    by (simp add: patchRequest_def)
next
  assume "getUID (JObject ob) = []"
  then show "handleMessage rt started (SyncObject ty ob) = ([], started)"
    by (simp add: handleMessage_def Let_def)
next
  show "handleMessage rt started (ResyncObjects items) =
     ((if started then [] else [(Add, ''/'' @ rt, Some (JObject []))]) @
      map (\<lambda>obj. (Add, ''/'' @ rt @ ''/'' @ getUID obj, Some obj))
        (filter (\<lambda>obj. getUID obj \<noteq> []) items), True)"
    by (simp add: handleMessage_def resyncItems_filter)
  show "syncLoop rt started (msg # msgs) =
     fst (handleMessage rt started msg) @
     syncLoop rt (snd (handleMessage rt started msg)) msgs"
    by (simp split: prod.splits)
qed

lemma getUID_pods: "getUID (JObject (podWithUID u)) = u" "getUID (JObject podWithoutUID) = []"
  by (simp_all add: getUID_def podWithUID_def podWithoutUID_def)

theorem mirror_sync_patches_witness:
  "getUID (JObject (podWithUID ''a1'')) = ''a1'' \<and>
   handleMessage ''pods'' True (SyncObject added (podWithUID ''a1'')) =
     ([(Add, ''/pods/a1'', Some (JObject (podWithUID ''a1'')))], True) \<and>
   handleMessage ''pods'' True (SyncObject modified (podWithUID ''a1'')) =
     ([(Replace, ''/pods/a1'', Some (JObject (podWithUID ''a1'')))], True) \<and>
   handleMessage ''pods'' True (SyncObject deleted (podWithUID ''a1'')) =
     ([(Remove, ''/pods/a1'', None)], True) \<and>
   handleMessage ''pods'' True (SyncObject modified podWithoutUID) = ([], True) \<and>
   syncLoop ''pods'' False
     [ResyncObjects [JObject (podWithUID ''a1''), JObject podWithoutUID,
                     JObject (podWithUID ''b2'')],
      SyncObject deleted (podWithUID ''a1'')] =
     [(Add, ''/pods'', Some (JObject [])),
      (Add, ''/pods/a1'', Some (JObject (podWithUID ''a1''))),
      (Add, ''/pods/b2'', Some (JObject (podWithUID ''b2''))),
      (Remove, ''/pods/a1'', None)]"
proof -
  note t = mirror_sync_patches[where rt = "''pods''" and base = "''http://opa''"
      and m = "[(''name'', JString ''web''), (''uid'', JString ''a1'')]" and u = "''a1''"
      and ty = modified]
  note t1 = t[where ob = "podWithUID ''a1''" and started = True
      and items = "[]" and msg = "ErrorEvent EOF" and msgs = "[]"]
  note t2 = t[where ob = podWithoutUID and started = True
      and items = "[]" and msg = "ErrorEvent EOF" and msgs = "[]"]
  note t3 = t[where ob = "podWithUID ''a1''" and started = False
      and items = "[JObject (podWithUID ''a1''), JObject podWithoutUID, JObject (podWithUID ''b2'')]"
      and msg = "ResyncObjects [JObject (podWithUID ''a1''), JObject podWithoutUID,
                     JObject (podWithUID ''b2'')]"
      and msgs = "[SyncObject deleted (podWithUID ''a1'')]"]
  note t4 = t[where ob = "podWithUID ''a1''" and started = True
      and items = "[]" and msg = "SyncObject deleted (podWithUID ''a1'')" and msgs = "[]"]
  have m: "map_of (podWithUID ''a1'') ''metadata'' =
      Some (JObject [(''name'', JString ''web''), (''uid'', JString ''a1'')])"
    by (simp add: podWithUID_def)
  have 1: "getUID (JObject (podWithUID ''a1'')) = ''a1''"
    using t1 m by simp
  have 2: "handleMessage ''pods'' True (SyncObject added (podWithUID ''a1'')) =
     ([(Add, ''/pods/a1'', Some (JObject (podWithUID ''a1'')))], True)"
    "handleMessage ''pods'' True (SyncObject modified (podWithUID ''a1'')) =
     ([(Replace, ''/pods/a1'', Some (JObject (podWithUID ''a1'')))], True)"
    "handleMessage ''pods'' True (SyncObject deleted (podWithUID ''a1'')) =
     ([(Remove, ''/pods/a1'', None)], True)"
    using t1 by (simp_all add: getUID_pods)
  have 3: "handleMessage ''pods'' True (SyncObject modified podWithoutUID) = ([], True)"
    using t2 by (simp add: getUID_pods)
  have 4: "syncLoop ''pods'' False
     [ResyncObjects [JObject (podWithUID ''a1''), JObject podWithoutUID,
                     JObject (podWithUID ''b2'')],
      SyncObject deleted (podWithUID ''a1'')] =
     [(Add, ''/pods'', Some (JObject [])),
      (Add, ''/pods/a1'', Some (JObject (podWithUID ''a1''))),
      (Add, ''/pods/b2'', Some (JObject (podWithUID ''b2''))),
      (Remove, ''/pods/a1'', None)]"
    using t3 t4 by (simp add: getUID_pods)
  from 1 2 3 4 show ?thesis by simp
qed


text \<open>
  Claim C8. One turn of the reflector's loop, followed by the rest of the run: a failed list
  sends its error and the loop starts again; a successful list sends one resync with all
  the items listed, then the sync objects decoded from the watch opened with the version of
  that list, whatever becomes of the watch; a watch ended by \<open>EOF\<close> sends nothing more
  before the loop starts again, a watch ended by another error sends that error first, and
  a watch that never ends sends nothing after its sync objects. Before the first turn
  nothing is sent.
\<close>

theorem reflector_turn:
  "Start dec decStream [] = [] \<and>
   (reflector_list dec (listResponse t) = Inl err \<longrightarrow>
      Start dec decStream (t # ts) = ErrorEvent err # Start dec decStream ts) \<and>
   (reflector_list dec (listResponse t) = Inr (items, version) \<and>
    reflector_watch decStream (watchResponse t version) = (syncs, EndsWith EOF) \<longrightarrow>
      Start dec decStream (t # ts) =
        ResyncObjects items # syncEvents syncs @ Start dec decStream ts) \<and>
   (reflector_list dec (listResponse t) = Inr (items, version) \<and>
    reflector_watch decStream (watchResponse t version) = (syncs, EndsWith werr) \<and>
    werr \<noteq> EOF \<longrightarrow>
      Start dec decStream (t # ts) =
        ResyncObjects items # syncEvents syncs @ [ErrorEvent werr] @ Start dec decStream ts) \<and>
   (reflector_list dec (listResponse t) = Inr (items, version) \<and>
    reflector_watch decStream (watchResponse t version) = (syncs, NeverEnds) \<longrightarrow>
      Start dec decStream (t # ts) = ResyncObjects items # syncEvents syncs) \<and>
   (reflector_list dec (listResponse t) = Inr (items, version) \<longrightarrow>
      (\<exists>rest. Start dec decStream (t # ts) =
           ResyncObjects items #
           syncEvents (fst (reflector_watch decStream (watchResponse t version))) @ rest \<and>
         (rest = [] \<or> rest = Start dec decStream ts \<or>
          (\<exists>e. e \<noteq> EOF \<and> rest = ErrorEvent e # Start dec decStream ts))))"
proof (intro conjI impI)
  show "Start dec decStream [] = []" by simp
next
  assume "reflector_list dec (listResponse t) = Inl err"
  then show "Start dec decStream (t # ts) = ErrorEvent err # Start dec decStream ts"
    by simp
next
  assume "reflector_list dec (listResponse t) = Inr (items, version) \<and>
    reflector_watch decStream (watchResponse t version) = (syncs, EndsWith EOF)"
  then show "Start dec decStream (t # ts) =
        ResyncObjects items # syncEvents syncs @ Start dec decStream ts"
    by simp
next
  assume "reflector_list dec (listResponse t) = Inr (items, version) \<and>
    reflector_watch decStream (watchResponse t version) = (syncs, EndsWith werr) \<and>
    werr \<noteq> EOF"
  then show "Start dec decStream (t # ts) =
        ResyncObjects items # syncEvents syncs @ [ErrorEvent werr] @ Start dec decStream ts"
    by simp
next
  assume "reflector_list dec (listResponse t) = Inr (items, version) \<and>
    reflector_watch decStream (watchResponse t version) = (syncs, NeverEnds)"
  then show "Start dec decStream (t # ts) = ResyncObjects items # syncEvents syncs"
    by simp
next
  assume l: "reflector_list dec (listResponse t) = Inr (items, version)"
  obtain ss en where w: "reflector_watch decStream (watchResponse t version) = (ss, en)"
    by (cases "reflector_watch decStream (watchResponse t version)")
  show "\<exists>rest. Start dec decStream (t # ts) =
           ResyncObjects items #
           syncEvents (fst (reflector_watch decStream (watchResponse t version))) @ rest \<and>
         (rest = [] \<or> rest = Start dec decStream ts \<or>
          (\<exists>e. e \<noteq> EOF \<and> rest = ErrorEvent e # Start dec decStream ts))"
  proof (cases en)
    case NeverEnds
    with l w show ?thesis by simp
  next
    case (EndsWith e)
    with l w show ?thesis by (cases "e = EOF") simp_all
  qed
qed

theorem reflector_turn_witness:
  "Start id id
     [\<lparr>listResponse = Response 200 [] (Some (listBody [JString ''a'', JString ''b'', JString ''c''] ''v1'')),
       watchResponse = (\<lambda>v. if v = ''v1''
                            then Response 200 [] ([(added, podWithUID ''d'')], EndsWith EOF)
                            else ConnError ''wrong cursor'')\<rparr>,
      \<lparr>listResponse = Response 500 [] None, watchResponse = (\<lambda>v. ConnError ''down'')\<rparr>,
      \<lparr>listResponse = Response 200 [] (Some (listBody [] ''v2'')),
       watchResponse = (\<lambda>v. Response 200 [] ([(deleted, podWithUID ''d'')], EndsWith DecodeError))\<rparr>,
      \<lparr>listResponse = Response 200 [] (Some (listBody [JString ''e''] ''v3'')),
       watchResponse = (\<lambda>v. if v = ''v3''
                            then Response 200 [] ([(modified, podWithUID ''f'')], NeverEnds)
                            else ConnError ''wrong cursor'')\<rparr>,
      \<lparr>listResponse = Response 500 [] None, watchResponse = (\<lambda>v. ConnError ''down'')\<rparr>] =
     [ResyncObjects [JString ''a'', JString ''b'', JString ''c''],
      SyncObject added (podWithUID ''d''),
      ErrorEvent (GetFailed 500),
      ResyncObjects [],
      SyncObject deleted (podWithUID ''d''),
      ErrorEvent DecodeError,
      ResyncObjects [JString ''e''],
      SyncObject modified (podWithUID ''f'')]"
proof -
  let ?t1 = "\<lparr>listResponse = Response 200 [] (Some (listBody [JString ''a'', JString ''b'', JString ''c''] ''v1'')),
       watchResponse = (\<lambda>v. if v = ''v1''
                            then Response 200 [] ([(added, podWithUID ''d'')], EndsWith EOF)
                            else ConnError ''wrong cursor'')\<rparr>"
  let ?t2 = "\<lparr>listResponse = Response 500 [] None, watchResponse = (\<lambda>v. ConnError ''down'')\<rparr>
      :: (json option, (string \<times> (string \<times> json) list) list \<times> ending) turn"
  let ?t3 = "\<lparr>listResponse = Response 200 [] (Some (listBody [] ''v2'')),
       watchResponse = (\<lambda>v. Response 200 [] ([(deleted, podWithUID ''d'')], EndsWith DecodeError))\<rparr>"
  let ?t4 = "\<lparr>listResponse = Response 200 [] (Some (listBody [JString ''e''] ''v3'')),
       watchResponse = (\<lambda>v. if v = ''v3''
                            then Response 200 [] ([(modified, podWithUID ''f'')], NeverEnds)
                            else ConnError ''wrong cursor'')\<rparr>"
  have l: "reflector_list id (Response 200 [] (Some (listBody its ver))) = Inr (its, ver)"
    "reflector_list id (Response 500 [] None) = Inl (GetFailed 500)" for its ver
    by (simp_all add: reflector_list_def listBody_def)
  have w: "reflector_watch id (Response 200 [] s) = s" for s :: "(string \<times> (string \<times> json) list) list \<times> ending"
    by (simp add: reflector_watch_def)
  have 4: "Start id id [?t4, ?t2] =
      [ResyncObjects [JString ''e''], SyncObject modified (podWithUID ''f'')]"
    using reflector_turn[where dec = id and decStream = id and t = ?t4 and ts = "[?t2]"
        and items = "[JString ''e'']" and version = "''v3''"
        and syncs = "[(modified, podWithUID ''f'')]" and werr = DecodeError and err = EOF]
    by (simp add: l w syncEvents_def)
  have 3: "Start id id [?t3, ?t4, ?t2] =
      ResyncObjects [] # SyncObject deleted (podWithUID ''d'') # ErrorEvent DecodeError #
      Start id id [?t4, ?t2]"
    using reflector_turn[where dec = id and decStream = id and t = ?t3 and ts = "[?t4, ?t2]"
        and items = "[]" and version = "''v2''" and syncs = "[(deleted, podWithUID ''d'')]"
        and werr = DecodeError and err = EOF]
    by (simp add: l w syncEvents_def)
  have 2: "Start id id [?t2, ?t3, ?t4, ?t2] =
      ErrorEvent (GetFailed 500) # Start id id [?t3, ?t4, ?t2]"
    using reflector_turn[where dec = id and decStream = id and t = ?t2
        and ts = "[?t3, ?t4, ?t2]" and items = "[]" and version = "''v2''" and syncs = "[]"
        and werr = DecodeError and err = "GetFailed 500"]
    by (simp add: l w syncEvents_def)
  have 1: "Start id id [?t1, ?t2, ?t3, ?t4, ?t2] =
      ResyncObjects [JString ''a'', JString ''b'', JString ''c''] #
      SyncObject added (podWithUID ''d'') # Start id id [?t2, ?t3, ?t4, ?t2]"
    using reflector_turn[where dec = id and decStream = id and t = ?t1
        and ts = "[?t2, ?t3, ?t4, ?t2]"
        and items = "[JString ''a'', JString ''b'', JString ''c'']" and version = "''v1''"
        and syncs = "[(added, podWithUID ''d'')]" and werr = DecodeError and err = EOF]
    by (simp add: l w syncEvents_def)
  show ?thesis unfolding 1 2 3 4 by simp
qed

end
